theory Spec2Isabelle
  imports Complex_Main
begin

section \<open>The viewport session of \<^verbatim>\<open>RayTracingSimulation\<close>\<close>

text \<open>
  The component is one React effect (\<^verbatim>\<open>useEffect(() => { ... }, [])\<close>) that builds a
  three.js scene, registers callbacks with the asset loader, the parameter panel, the frame
  scheduler and the window, and returns a cleanup function. The embedding below keeps the
  objects the effect's closure holds in one record, \<open>session\<close>, and turns every callback
  of the source into a function from the session to the updated session.

  JavaScript numbers are IEEE doubles. A finite number is idealised as a \<open>real\<close>: the
  model does not round. On the inputs a browser supplies, the only operation of this component
  that leaves the finite numbers is the quotient \<^verbatim>\<open>window.innerWidth / window.innerHeight\<close>
  with a height of 0, so that quotient alone has the type \<open>number\<close>.
\<close>

subsection \<open>Numbers\<close>

datatype number = Finite real | Infinity | NaN

text \<open>\<^verbatim>\<open>w / h\<close> on two non-negative integers, as JavaScript evaluates it.\<close>

definition js_div :: "nat \<Rightarrow> nat \<Rightarrow> number" where
  "js_div w h =
     (if h = 0 then (if w = 0 then NaN else Infinity) else Finite (real w / real h))"

subsection \<open>The objects of the rendering engine\<close>

datatype tone_mapping = NoToneMapping | ACESFilmicToneMapping

datatype texture_mapping = UVMapping | EquirectangularReflectionMapping

text \<open>A loaded texture: \<open>image\<close> names the decoded image data the loader delivers.\<close>

record texture =
  image :: nat
  mapping :: texture_mapping

record vector3 =
  pos_x :: real
  pos_y :: real
  pos_z :: real

record euler =
  rot_x :: real
  rot_y :: real
  rot_z :: real

text \<open>\<^verbatim>\<open>MeshStandardMaterial\<close>: the three parameters the source sets; \<open>color\<close> is the
  24-bit hex colour, as the constructor takes it and as \<^verbatim>\<open>color.getHex()\<close> reads it.\<close>

record material =
  color :: nat
  metalness :: real
  roughness :: real

record mesh =
  position :: vector3

datatype object3d = Sphere1 | Sphere2

record scene =
  background :: "texture option"
  environment :: "texture option"
  backgroundRotation :: euler
  environmentRotation :: euler
  children :: "object3d list"

text \<open>\<open>projection_aspect\<close> stands for the camera's projection matrix, which the engine derives
  from the camera's fields in \<^verbatim>\<open>updateProjectionMatrix\<close>: it holds the aspect ratio that
  matrix was last computed from. The camera's pose, which the orbit controller drives from
  pointer input, is not part of the model.\<close>

record camera =
  fov :: real
  aspect :: number
  near :: real
  far :: real
  projection_aspect :: number

record renderer =
  width :: nat
  height :: nat
  pixelRatio :: real
  toneMapping :: tone_mapping
  toneMappingExposure :: real

record env_params =
  exposure :: real
  rotation :: real

text \<open>What \<^verbatim>\<open>dispose()\<close> can be called on in the cleanup.\<close>

datatype resource = Geometry | Material1 | Material2 | Renderer | Texture texture

subsection \<open>The host and the session\<close>

record window =
  innerWidth :: nat
  innerHeight :: nat
  devicePixelRatio :: real

text \<open>
  The state the effect's closure and the component hold. \<open>loading\<close> is the React state;
  \<open>environmentTexture\<close>, \<open>material1\<close>, \<open>material2\<close>, \<open>sphere1\<close>, \<open>sphere2\<close> and
  \<open>envParams\<close> are the source's variables of these names. \<open>animation_scheduled\<close> says that
  a frame request is pending under \<^verbatim>\<open>animationId\<close>, \<open>resize_listener\<close> that
  \<^verbatim>\<open>onWindowResize\<close> is registered on the window, \<open>dom_attached\<close> that the renderer's
  canvas is a child of the mount element, \<open>gui_alive\<close> that the panel has not been destroyed.
  \<open>disposed\<close> logs the \<^verbatim>\<open>dispose()\<close> calls in order and \<open>console_errors\<close> the
  \<^verbatim>\<open>console.error\<close> calls.
\<close>

record session =
  loading :: bool
  scene :: scene
  camera :: camera
  renderer :: renderer
  environmentTexture :: "texture option"
  material1 :: material
  material2 :: material
  sphere1 :: mesh
  sphere2 :: mesh
  envParams :: env_params
  animation_scheduled :: bool
  resize_listener :: bool
  dom_attached :: bool
  gui_alive :: bool
  disposed :: "resource list"
  console_errors :: "(string \<times> string) list"

subsection \<open>The render loop\<close>

text \<open>
  \<^verbatim>\<open>animate\<close>, with the value of \<^verbatim>\<open>Date.now()\<close> (milliseconds, an integer) as argument.
  \<^verbatim>\<open>controls.update()\<close> and \<^verbatim>\<open>renderer.render(scene, camera)\<close> write none of the
  fields of the model.
\<close>

definition animate :: "int \<Rightarrow> session \<Rightarrow> session" where
  "animate now s =
     (let time = real_of_int now * 0.001 in
      s\<lparr>animation_scheduled := True,
        sphere1 := (sphere1 s)\<lparr>position := (position (sphere1 s))\<lparr>pos_y := sin time * 0.1\<rparr>\<rparr>,
        sphere2 := (sphere2 s)\<lparr>position := (position (sphere2 s))\<lparr>pos_y := sin (time + 2) * 0.1\<rparr>\<rparr>\<rparr>)"

subsection \<open>Initialisation\<close>

text \<open>\<^verbatim>\<open>new THREE.Scene()\<close>: no background, no environment, both rotations zero.\<close>

definition new_Scene :: scene where
  "new_Scene =
     \<lparr>background = None, environment = None,
      backgroundRotation = \<lparr>rot_x = 0, rot_y = 0, rot_z = 0\<rparr>,
      environmentRotation = \<lparr>rot_x = 0, rot_y = 0, rot_z = 0\<rparr>,
      children = []\<rparr>"

definition updateProjectionMatrix :: "camera \<Rightarrow> camera" where
  "updateProjectionMatrix c = c\<lparr>projection_aspect := aspect c\<rparr>"

text \<open>\<^verbatim>\<open>new THREE.PerspectiveCamera(fov, aspect, near, far)\<close>; the constructor computes
  the projection matrix.\<close>

definition new_PerspectiveCamera :: "real \<Rightarrow> number \<Rightarrow> real \<Rightarrow> real \<Rightarrow> camera" where
  "new_PerspectiveCamera f a n fr =
     updateProjectionMatrix \<lparr>fov = f, aspect = a, near = n, far = fr, projection_aspect = a\<rparr>"

definition setSize :: "nat \<Rightarrow> nat \<Rightarrow> renderer \<Rightarrow> renderer" where
  "setSize w h r = r\<lparr>width := w, height := h\<rparr>"

definition setPixelRatio :: "real \<Rightarrow> renderer \<Rightarrow> renderer" where
  "setPixelRatio p r = r\<lparr>pixelRatio := p\<rparr>"

text \<open>\<^verbatim>\<open>new THREE.WebGLRenderer(...)\<close>. The effect overwrites each of the five fields
  before anything reads it, so the values given here never show.\<close>

definition new_WebGLRenderer :: renderer where
  "new_WebGLRenderer =
     \<lparr>width = 0, height = 0, pixelRatio = 1,
      toneMapping = NoToneMapping, toneMappingExposure = 1\<rparr>"

text \<open>The renderer after lines 36 to 40 of the effect; \<^verbatim>\<open>Math.min\<close> is \<open>min\<close>.\<close>

definition setup_renderer :: "window \<Rightarrow> renderer" where
  "setup_renderer win =
     (setPixelRatio (min (devicePixelRatio win) 2)
        (setSize (innerWidth win) (innerHeight win) new_WebGLRenderer))
     \<lparr>toneMapping := ACESFilmicToneMapping, toneMappingExposure := 1.0\<rparr>"

text \<open>
  The body of the effect after its guard, up to the \<^verbatim>\<open>return\<close> of the cleanup: the scene,
  camera and renderer, the pending load, the two spheres, the panel, the first call of
  \<^verbatim>\<open>animate\<close>, and the resize listener.
\<close>

definition start_session :: "window \<Rightarrow> int \<Rightarrow> session" where
  "start_session win now =
     (animate now
        \<lparr>loading = True,
         scene = new_Scene\<lparr>children := [Sphere1, Sphere2]\<rparr>,
         camera = new_PerspectiveCamera 45 (js_div (innerWidth win) (innerHeight win)) 0.1 100,
         renderer = setup_renderer win,
         environmentTexture = None,
         material1 = \<lparr>color = 0xffffff, metalness = 1.0, roughness = 0.05\<rparr>,
         material2 = \<lparr>color = 0xffaa00, metalness = 1.0, roughness = 0.2\<rparr>,
         sphere1 = \<lparr>position = \<lparr>pos_x = - 1.2, pos_y = 0, pos_z = 0\<rparr>\<rparr>,
         sphere2 = \<lparr>position = \<lparr>pos_x = 1.2, pos_y = 0, pos_z = 0\<rparr>\<rparr>,
         envParams = \<lparr>exposure = 1.0, rotation = 0\<rparr>,
         animation_scheduled = False,
         resize_listener = False,
         dom_attached = True,
         gui_alive = True,
         disposed = [],
         console_errors = []\<rparr>)
     \<lparr>resize_listener := True\<rparr>"

text \<open>The effect with its guard \<^verbatim>\<open>if (!mountRef.current) return;\<close>: without a mount
  element no session is created.\<close>

definition useEffect :: "bool \<Rightarrow> window \<Rightarrow> int \<Rightarrow> session option" where
  "useEffect mountRef_current win now =
     (if \<not> mountRef_current then None else Some (start_session win now))"

subsection \<open>The asset loader's callbacks\<close>

text \<open>
  The success callback of \<^verbatim>\<open>hdriLoader.load\<close>. The texture object is tagged and then
  stored in three places; nothing writes to it afterwards, so the three hold the same value.
\<close>

definition onLoad :: "texture \<Rightarrow> session \<Rightarrow> session" where
  "onLoad texture s =
     (let texture = texture\<lparr>mapping := EquirectangularReflectionMapping\<rparr> in
      s\<lparr>scene := (scene s)\<lparr>background := Some texture, environment := Some texture\<rparr>,
        environmentTexture := Some texture,
        loading := False\<rparr>)"

text \<open>The failure callback; \<open>err\<close> is the error as printed.\<close>

definition onError :: "string \<Rightarrow> session \<Rightarrow> session" where
  "onError err s =
     s\<lparr>console_errors := console_errors s @ [(''An error occurred loading the HDRI:'', err)],
       loading := False\<rparr>"

subsection \<open>The parameter panel\<close>

text \<open>The handler of the \<^verbatim>\<open>Brightness\<close> control.\<close>

definition exposure_onChange :: "real \<Rightarrow> session \<Rightarrow> session" where
  "exposure_onChange v s = s\<lparr>renderer := (renderer s)\<lparr>toneMappingExposure := v\<rparr>\<rparr>"

text \<open>The handler of the \<^verbatim>\<open>Rotate World\<close> control.\<close>

definition rotation_onChange :: "real \<Rightarrow> session \<Rightarrow> session" where
  "rotation_onChange v s =
     (let radians = v * (pi / 180) in
      s\<lparr>scene := (scene s)
           \<lparr>backgroundRotation := (backgroundRotation (scene s))\<lparr>rot_y := radians\<rparr>,
            environmentRotation := (environmentRotation (scene s))\<lparr>rot_y := radians\<rparr>\<rparr>\<rparr>)"

text \<open>
  A colour control made by \<^verbatim>\<open>addColor(material, 'color')\<close> does not assign a hex colour:
  it writes each byte \<open>b\<close> of the picked hex, as \<open>b / 255\<close>, into the channels
  \<^verbatim>\<open>r\<close>, \<^verbatim>\<open>g\<close>, \<^verbatim>\<open>b\<close> of the material's colour object. The engine keeps these channels
  in its linear working colour space, so the hex the colour then reads as has, in each
  channel, the byte \<^verbatim>\<open>Math.round(255 * LinearToSRGB(b / 255))\<close>, where
  \<^verbatim>\<open>LinearToSRGB(c)\<close> is \<^verbatim>\<open>c * 12.92\<close> below 0.0031308 and
  \<^verbatim>\<open>1.055 * Math.pow(c, 0.41666) - 0.055\<close> from there on. \<open>linear_to_srgb_byte\<close>
  tabulates that byte for the 256 values of \<open>b\<close>.
\<close>

definition linear_to_srgb_byte :: "nat \<Rightarrow> nat" where
  "linear_to_srgb_byte b =
     ([0, 13, 22, 28, 34, 38, 42, 46, 50, 53, 56, 59, 61, 64, 66, 69]
      @ [71, 73, 75, 77, 79, 81, 83, 85, 86, 88, 90, 92, 93, 95, 96, 98]
      @ [99, 101, 102, 104, 105, 106, 108, 109, 110, 112, 113, 114, 115, 117, 118, 119]
      @ [120, 121, 122, 124, 125, 126, 127, 128, 129, 130, 131, 132, 133, 134, 135, 136]
      @ [137, 138, 139, 140, 141, 142, 143, 144, 145, 146, 147, 148, 148, 149, 150, 151]
      @ [152, 153, 154, 155, 155, 156, 157, 158, 159, 159, 160, 161, 162, 163, 163, 164]
      @ [165, 166, 167, 167, 168, 169, 170, 170, 171, 172, 173, 173, 174, 175, 175, 176]
      @ [177, 178, 178, 179, 180, 180, 181, 182, 182, 183, 184, 185, 185, 186, 187, 187]
      @ [188, 189, 189, 190, 190, 191, 192, 192, 193, 194, 194, 195, 196, 196, 197, 197]
      @ [198, 199, 199, 200, 200, 201, 202, 202, 203, 203, 204, 205, 205, 206, 206, 207]
      @ [208, 208, 209, 209, 210, 210, 211, 212, 212, 213, 213, 214, 214, 215, 215, 216]
      @ [216, 217, 218, 218, 219, 219, 220, 220, 221, 221, 222, 222, 223, 223, 224, 224]
      @ [225, 226, 226, 227, 227, 228, 228, 229, 229, 230, 230, 231, 231, 232, 232, 233]
      @ [233, 234, 234, 235, 235, 236, 236, 237, 237, 238, 238, 238, 239, 239, 240, 240]
      @ [241, 241, 242, 242, 243, 243, 244, 244, 245, 245, 246, 246, 246, 247, 247, 248]
      @ [248, 249, 249, 250, 250, 251, 251, 251, 252, 252, 253, 253, 254, 254, 255, 255]) ! (b mod 256)"

text \<open>The hex colour a material reads as after the hex \<open>p\<close> was picked in its colour
  control.\<close>

definition picked_color :: "nat \<Rightarrow> nat" where
  "picked_color p =
     linear_to_srgb_byte (p div 65536 mod 256) * 65536
     + linear_to_srgb_byte (p div 256 mod 256) * 256
     + linear_to_srgb_byte (p mod 256)"

text \<open>
  The eight controls the source registers, each with the value the widget delivers (for a
  colour control, the picked hex). A control made by \<^verbatim>\<open>add(object, property, min, max)\<close>
  writes the value to \<^verbatim>\<open>object[property]\<close> and then calls the handler given to
  \<^verbatim>\<open>onChange\<close>, if there is one. Keeping a value inside the declared range is the
  widget's work and is not modelled: every value is written as it comes.
\<close>

datatype panel_input =
    Left_Metalness real | Left_Roughness real | Left_Color nat
  | Right_Metalness real | Right_Roughness real | Right_Color nat
  | Brightness real | Rotate_World real

fun panel_change :: "panel_input \<Rightarrow> session \<Rightarrow> session" where
  "panel_change (Left_Metalness v) s = s\<lparr>material1 := (material1 s)\<lparr>metalness := v\<rparr>\<rparr>"
| "panel_change (Left_Roughness v) s = s\<lparr>material1 := (material1 s)\<lparr>roughness := v\<rparr>\<rparr>"
| "panel_change (Left_Color p) s = s\<lparr>material1 := (material1 s)\<lparr>color := picked_color p\<rparr>\<rparr>"
| "panel_change (Right_Metalness v) s = s\<lparr>material2 := (material2 s)\<lparr>metalness := v\<rparr>\<rparr>"
| "panel_change (Right_Roughness v) s = s\<lparr>material2 := (material2 s)\<lparr>roughness := v\<rparr>\<rparr>"
| "panel_change (Right_Color p) s = s\<lparr>material2 := (material2 s)\<lparr>color := picked_color p\<rparr>\<rparr>"
| "panel_change (Brightness v) s =
     exposure_onChange v (s\<lparr>envParams := (envParams s)\<lparr>exposure := v\<rparr>\<rparr>)"
| "panel_change (Rotate_World v) s =
     rotation_onChange v (s\<lparr>envParams := (envParams s)\<lparr>rotation := v\<rparr>\<rparr>)"

subsection \<open>Resize and cleanup\<close>

text \<open>\<^verbatim>\<open>onWindowResize\<close>, with the window it reads.\<close>

definition onWindowResize :: "window \<Rightarrow> session \<Rightarrow> session" where
  "onWindowResize win s =
     s\<lparr>camera :=
         updateProjectionMatrix
           ((camera s)\<lparr>aspect := js_div (innerWidth win) (innerHeight win)\<rparr>),
       renderer := setSize (innerWidth win) (innerHeight win) (renderer s)\<rparr>"

text \<open>
  The cleanup function the effect returns; \<open>mountRef_current\<close> says whether the mount
  element still exists when it runs.
\<close>

definition cleanup :: "bool \<Rightarrow> session \<Rightarrow> session" where
  "cleanup mountRef_current s =
     s\<lparr>resize_listener := False,
       animation_scheduled := False,
       dom_attached := (if mountRef_current then False else dom_attached s),
       disposed :=
         disposed s @ [Geometry, Material1, Material2, Renderer]
         @ (case environmentTexture s of None \<Rightarrow> [] | Some t \<Rightarrow> [Texture t]),
       gui_alive := False\<rparr>"

text \<open>The textures among the released resources, in the order of their release.\<close>

fun released_textures :: "resource list \<Rightarrow> texture list" where
  "released_textures [] = []"
| "released_textures (Texture t # rs) = t # released_textures rs"
| "released_textures (r # rs) = released_textures rs"

subsection \<open>What the host delivers between start and teardown\<close>

text \<open>
  Apart from the loader's two callbacks, the host calls into the session on a frame
  (with the clock's value), on a resize (with the window as it then is) and on a change in the
  panel. A callback is only delivered while it is registered.
\<close>

datatype event = Frame int | Resize window | Panel panel_input

fun step :: "event \<Rightarrow> session \<Rightarrow> session" where
  "step (Frame now) s = (if animation_scheduled s then animate now s else s)"
| "step (Resize win) s = (if resize_listener s then onWindowResize win s else s)"
| "step (Panel i) s = (if gui_alive s then panel_change i s else s)"

fun run :: "event list \<Rightarrow> session \<Rightarrow> session" where
  "run [] s = s"
| "run (e # es) s = run es (step e s)"

section \<open>Properties\<close>

subsection \<open>Fields the events leave alone\<close>

lemma panel_change_environmentTexture:
  "environmentTexture (panel_change i s) = environmentTexture s"
  by (cases i) (simp_all add: exposure_onChange_def rotation_onChange_def Let_def)

lemma panel_change_disposed: "disposed (panel_change i s) = disposed s"
  by (cases i) (simp_all add: exposure_onChange_def rotation_onChange_def Let_def)

lemma step_environmentTexture: "environmentTexture (step e s) = environmentTexture s"
  by (cases e)
     (simp_all add: animate_def Let_def onWindowResize_def panel_change_environmentTexture)

lemma step_disposed: "disposed (step e s) = disposed s"
  by (cases e) (simp_all add: animate_def Let_def onWindowResize_def panel_change_disposed)

lemma run_environmentTexture: "environmentTexture (run es s) = environmentTexture s"
  by (induction es arbitrary: s) (simp_all add: step_environmentTexture)

lemma run_disposed: "disposed (run es s) = disposed s"
  by (induction es arbitrary: s) (simp_all add: step_disposed)

lemma panel_change_scene_textures:
  "background (scene (panel_change i s)) = background (scene s)
   \<and> environment (scene (panel_change i s)) = environment (scene s)"
  by (cases i) (simp_all add: exposure_onChange_def rotation_onChange_def Let_def)

lemma step_scene_textures:
  "background (scene (step e s)) = background (scene s)
   \<and> environment (scene (step e s)) = environment (scene s)"
  by (cases e) (simp_all add: animate_def Let_def onWindowResize_def panel_change_scene_textures)

lemma run_scene_textures:
  "background (scene (run es s)) = background (scene s)
   \<and> environment (scene (run es s)) = environment (scene s)"
  by (induction es arbitrary: s) (simp_all add: step_scene_textures)

lemma start_session_scene_textures:
  "background (scene (start_session win now)) = None
   \<and> environment (scene (start_session win now)) = None"
  by (simp add: start_session_def animate_def Let_def new_Scene_def)

lemma useEffect_guard:
  "useEffect False win now = None"
  "useEffect True win now = Some (start_session win now)"
  by (simp_all add: useEffect_def)

lemma start_session_environmentTexture: "environmentTexture (start_session win now) = None"
  by (simp add: start_session_def animate_def Let_def)

lemma start_session_disposed: "disposed (start_session win now) = []"
  by (simp add: start_session_def animate_def Let_def)

lemma released_textures_append:
  "released_textures (rs @ rs') = released_textures rs @ released_textures rs'"
  by (induction rs rule: released_textures.induct) simp_all

lemma cleanup_released:
  "released_textures (disposed (cleanup m s)) =
     released_textures (disposed s)
     @ (case environmentTexture s of None \<Rightarrow> [] | Some t \<Rightarrow> [t])"
  by (simp add: cleanup_def released_textures_append split: option.split)

text \<open>A colour pick is not the identity on hex colours: picking the gold of the start
  again gives a lighter colour, while white and black are kept.\<close>

lemma picked_color_examples:
  "picked_color 0x000001 = 0x00000d"
  "picked_color 0xffaa00 = 0xffd500"
  "picked_color 0xffffff = 0xffffff"
  "picked_color 0x000000 = 0x000000"
  by (simp_all add: picked_color_def linear_to_srgb_byte_def)

lemma right_color_pick_example:
  "color (material2 (panel_change (Right_Color 0xffaa00) s)) = 0xffd500"
  by (simp add: picked_color_def linear_to_srgb_byte_def)

subsection \<open>The claims\<close>

text \<open>C1, as amended: when the teardown runs after the load has completed, it releases the
  environment asset exactly once; when it runs before the load completes, or after the load
  has failed, it releases no environment asset. A load callback that arrives after the
  teardown is not guarded: it stores the texture as the scene's background, as its lighting
  environment and in the session's texture slot as at any other time, and nothing releases
  that texture.\<close>

theorem teardown_environment_release:
  "released_textures
     (disposed (cleanup m (run es' (onLoad tex (run es (start_session win now))))))
     = [tex\<lparr>mapping := EquirectangularReflectionMapping\<rparr>]
   \<and> released_textures (disposed (cleanup m (run es (start_session win now)))) = []
   \<and> released_textures
       (disposed (cleanup m (run es' (onError err (run es (start_session win now)))))) = []
   \<and> environmentTexture (onLoad tex (cleanup m (run es (start_session win now))))
       = Some (tex\<lparr>mapping := EquirectangularReflectionMapping\<rparr>)
   \<and> background (scene (onLoad tex (cleanup m (run es (start_session win now)))))
       = Some (tex\<lparr>mapping := EquirectangularReflectionMapping\<rparr>)
   \<and> environment (scene (onLoad tex (cleanup m (run es (start_session win now)))))
       = Some (tex\<lparr>mapping := EquirectangularReflectionMapping\<rparr>)
   \<and> released_textures
       (disposed (onLoad tex (cleanup m (run es (start_session win now))))) = []"
proof -
  let ?s = "run es (start_session win now)"
  have tex0: "environmentTexture ?s = None" and dis0: "disposed ?s = []"
    by (simp_all add: run_environmentTexture run_disposed start_session_environmentTexture
        start_session_disposed)
  have loaded: "environmentTexture (run es' (onLoad tex ?s))
      = Some (tex\<lparr>mapping := EquirectangularReflectionMapping\<rparr>)"
    by (simp add: run_environmentTexture onLoad_def Let_def)
  have loaded_dis: "disposed (run es' (onLoad tex ?s)) = []"
    by (simp add: run_disposed onLoad_def Let_def start_session_disposed)
  have failed: "environmentTexture (run es' (onError err ?s)) = None"
    by (simp add: run_environmentTexture onError_def start_session_environmentTexture)
  have failed_dis: "disposed (run es' (onError err ?s)) = []"
    by (simp add: run_disposed onError_def start_session_disposed)
  have after: "released_textures (disposed (cleanup m (run es' (onLoad tex ?s))))
      = [tex\<lparr>mapping := EquirectangularReflectionMapping\<rparr>]"
    by (simp add: cleanup_released loaded loaded_dis)
  have before: "released_textures (disposed (cleanup m ?s)) = []"
    by (simp add: cleanup_released tex0 dis0)
  have before_failed: "released_textures (disposed (cleanup m (run es' (onError err ?s)))) = []"
    by (simp add: cleanup_released failed failed_dis)
  have late: "disposed (onLoad tex (cleanup m ?s)) = disposed (cleanup m ?s)"
    by (simp add: onLoad_def Let_def)
  show ?thesis
    using after before before_failed late
    by (simp add: onLoad_def Let_def)
qed

text \<open>C1, as the claim states it, fails: after a teardown that came before the load,
  the success callback still fills the session's texture slot, so it is not a no-op.\<close>

theorem late_onLoad_mutates:
  "environmentTexture
     (cleanup True
        (start_session \<lparr>innerWidth = 800, innerHeight = 600, devicePixelRatio = 1\<rparr> 0)) = None
   \<and> environmentTexture
       (onLoad \<lparr>image = 0, mapping = UVMapping\<rparr>
          (cleanup True
             (start_session \<lparr>innerWidth = 800, innerHeight = 600, devicePixelRatio = 1\<rparr> 0)))
       = Some \<lparr>image = 0, mapping = EquirectangularReflectionMapping\<rparr>
   \<and> onLoad \<lparr>image = 0, mapping = UVMapping\<rparr>
         (cleanup True
            (start_session \<lparr>innerWidth = 800, innerHeight = 600, devicePixelRatio = 1\<rparr> 0))
       \<noteq> cleanup True
           (start_session \<lparr>innerWidth = 800, innerHeight = 600, devicePixelRatio = 1\<rparr> 0)"
proof -
  let ?s = "cleanup True
     (start_session \<lparr>innerWidth = 800, innerHeight = 600, devicePixelRatio = 1\<rparr> 0)"
  have a: "environmentTexture ?s = None"
    by (simp add: cleanup_def start_session_environmentTexture)
  have b: "environmentTexture (onLoad \<lparr>image = 0, mapping = UVMapping\<rparr> ?s)
      = Some \<lparr>image = 0, mapping = EquirectangularReflectionMapping\<rparr>"
    by (simp add: onLoad_def Let_def)
  from a b have "onLoad \<lparr>image = 0, mapping = UVMapping\<rparr> ?s \<noteq> ?s"
    by (metis option.distinct(1))
  with a b show ?thesis by simp
qed

text \<open>C2, as amended: at every run of the render-loop step, with \<open>t\<close> the wall-clock time
  in seconds the step reads (\<^verbatim>\<open>Date.now() * 0.001\<close>, not the time elapsed since the
  session started), the left sphere's vertical offset is \<open>0.1 * sin t\<close> and the right
  sphere's is \<open>0.1 * sin (t + 2)\<close>, and both lie in \<open>[-0.1, 0.1]\<close>. For a session started
  at the clock value \<open>start\<close>, a step that runs \<open>elapsed\<close> milliseconds later has
  \<open>t = start * 0.001 + elapsed * 0.001\<close>: the start's clock value stays in the phase.\<close>

theorem animate_bobbing:
  "pos_y (position (sphere1 (animate now s))) = 0.1 * sin (real_of_int now * 0.001)
   \<and> pos_y (position (sphere2 (animate now s))) = 0.1 * sin (real_of_int now * 0.001 + 2)
   \<and> - 0.1 \<le> pos_y (position (sphere1 (animate now s)))
   \<and> pos_y (position (sphere1 (animate now s))) \<le> 0.1
   \<and> - 0.1 \<le> pos_y (position (sphere2 (animate now s)))
   \<and> pos_y (position (sphere2 (animate now s))) \<le> 0.1
   \<and> pos_y (position (sphere1 (animate (start + elapsed) s)))
       = 0.1 * sin (real_of_int start * 0.001 + real_of_int elapsed * 0.001)
   \<and> pos_y (position (sphere2 (animate (start + elapsed) s)))
       = 0.1 * sin (real_of_int start * 0.001 + real_of_int elapsed * 0.001 + 2)"
proof -
  have bound: "- 0.1 \<le> sin u * 0.1 \<and> sin u * 0.1 \<le> 0.1" for u :: real
    using sin_ge_minus_one [of u] sin_le_one [of u] by simp
  have clock: "real_of_int (start + elapsed) * 0.001
      = real_of_int start * 0.001 + real_of_int elapsed * 0.001"
    by (simp add: algebra_simps)
  have left: "pos_y (position (sphere1 (animate n s))) = 0.1 * sin (real_of_int n * 0.001)"
    for n
    by (simp add: animate_def Let_def)
  have right:
    "pos_y (position (sphere2 (animate n s))) = 0.1 * sin (real_of_int n * 0.001 + 2)" for n
    by (simp add: animate_def Let_def)
  have left_bound: "- 0.1 \<le> pos_y (position (sphere1 (animate now s)))
      \<and> pos_y (position (sphere1 (animate now s))) \<le> 0.1"
    using bound [of "real_of_int now * 0.001"] by (simp add: left)
  have right_bound: "- 0.1 \<le> pos_y (position (sphere2 (animate now s)))
      \<and> pos_y (position (sphere2 (animate now s))) \<le> 0.1"
    using bound [of "real_of_int now * 0.001 + 2"] by (simp add: right)
  show ?thesis
    using left [of now] right [of now] left [of "start + elapsed"]
      right [of "start + elapsed"] left_bound right_bound
    by (simp only: clock simp_thms)
qed

text \<open>C2, as the claim states it, fails: the offset is not a function of the time elapsed
  since the session started. The first step runs at the start itself, at elapsed time 0,
  where \<open>a * sin 0\<close> is 0 for every amplitude \<open>a\<close>; a session started at the clock value
  1000 then has the left offset \<open>0.1 * sin 1\<close>, which is not 0 and not the offset
  of a session started at the clock value 0.\<close>

theorem bobbing_not_of_elapsed_time:
  "pos_y (position (sphere1
      (start_session \<lparr>innerWidth = 800, innerHeight = 600, devicePixelRatio = 1\<rparr> 1000)))
     = 0.1 * sin 1
   \<and> pos_y (position (sphere1
        (start_session \<lparr>innerWidth = 800, innerHeight = 600, devicePixelRatio = 1\<rparr> 1000)))
       \<noteq> 0
   \<and> pos_y (position (sphere1
        (start_session \<lparr>innerWidth = 800, innerHeight = 600, devicePixelRatio = 1\<rparr> 0)))
       = 0
   \<and> pos_y (position (sphere1
        (start_session \<lparr>innerWidth = 800, innerHeight = 600, devicePixelRatio = 1\<rparr> 1000)))
       \<noteq> pos_y (position (sphere1
            (start_session \<lparr>innerWidth = 800, innerHeight = 600, devicePixelRatio = 1\<rparr> 0)))"
proof -
  have pos: "0 < sin (1::real)"
    by (rule sin_gt_zero_02) simp_all
  have at_1000: "pos_y (position (sphere1
      (start_session \<lparr>innerWidth = 800, innerHeight = 600, devicePixelRatio = 1\<rparr> 1000)))
      = 0.1 * sin 1"
    by (simp add: start_session_def animate_def Let_def)
  have at_0: "pos_y (position (sphere1
      (start_session \<lparr>innerWidth = 800, innerHeight = 600, devicePixelRatio = 1\<rparr> 0))) = 0"
    by (simp add: start_session_def animate_def Let_def)
  show ?thesis
    using pos by (simp add: at_1000 at_0)
qed

text \<open>C3: the brightness control's change handler sets the render surface's tone-mapping
  exposure to exactly the value \<open>v\<close> it is given, for every \<open>v\<close> (so for every \<open>v\<close> in
  \<open>[0, 2]\<close>), and applying it a second time with the same \<open>v\<close> changes nothing.\<close>

theorem exposure_onChange_identity:
  "toneMappingExposure (renderer (exposure_onChange v s)) = v
   \<and> toneMappingExposure (renderer (exposure_onChange v (exposure_onChange v s))) = v
   \<and> exposure_onChange v (exposure_onChange v s) = exposure_onChange v s
   \<and> toneMappingExposure (renderer (panel_change (Brightness v) s)) = v"
  by (simp add: exposure_onChange_def)

text \<open>C4: the rotation control's change handler, given \<open>d\<close> degrees, sets the y rotation of
  the scene's background and of its lighting environment to \<open>d * pi / 180\<close> radians each, so
  the two are equal; this holds for every \<open>d\<close>, in particular on \<open>[0, 360]\<close>.\<close>

theorem rotation_onChange_radians:
  "rot_y (backgroundRotation (scene (rotation_onChange d s))) = d * pi / 180
   \<and> rot_y (environmentRotation (scene (rotation_onChange d s))) = d * pi / 180
   \<and> rot_y (backgroundRotation (scene (rotation_onChange d s)))
       = rot_y (environmentRotation (scene (rotation_onChange d s)))
   \<and> rot_y (backgroundRotation (scene (panel_change (Rotate_World d) s))) = d * pi / 180
   \<and> rot_y (environmentRotation (scene (panel_change (Rotate_World d) s))) = d * pi / 180"
  by (simp add: rotation_onChange_def Let_def)

text \<open>C5: resizing twice with the same window gives the same camera aspect ratio and the same
  render-surface size as resizing once; the whole session is the same.\<close>

theorem onWindowResize_idempotent:
  "aspect (camera (onWindowResize win (onWindowResize win s)))
     = aspect (camera (onWindowResize win s))
   \<and> width (renderer (onWindowResize win (onWindowResize win s)))
       = width (renderer (onWindowResize win s))
   \<and> height (renderer (onWindowResize win (onWindowResize win s)))
       = height (renderer (onWindowResize win s))
   \<and> onWindowResize win (onWindowResize win s) = onWindowResize win s"
  by (simp add: onWindowResize_def updateProjectionMatrix_def setSize_def)

text \<open>C6: setting the left sphere's metalness through its control to \<open>x\<close> makes the left
  material's metalness read back \<open>x\<close> and leaves the right material, with its metalness, as
  it was. In particular, in a session that was started and whose asset load succeeded,
  setting it to 0.3 reads back 0.3 and the right material is the one of the start.\<close>

theorem left_metalness_control:
  "metalness (material1 (panel_change (Left_Metalness x) s)) = x
   \<and> material2 (panel_change (Left_Metalness x) s) = material2 s
   \<and> metalness (material2 (panel_change (Left_Metalness x) s)) = metalness (material2 s)
   \<and> metalness (material1
        (step (Panel (Left_Metalness 0.3)) (onLoad tex (start_session win now)))) = 0.3
   \<and> material2 (step (Panel (Left_Metalness 0.3)) (onLoad tex (start_session win now)))
       = \<lparr>color = 0xffaa00, metalness = 1.0, roughness = 0.2\<rparr>"
  by (simp add: onLoad_def Let_def start_session_def animate_def)

text \<open>C7: at initialisation the pixel ratio applied to the render surface is the minimum of
  the host's device pixel ratio and 2, for every device pixel ratio, so it is at most 2.\<close>

theorem pixel_ratio_capped:
  "pixelRatio (renderer (start_session win now)) = min (devicePixelRatio win) 2
   \<and> pixelRatio (renderer (start_session win now)) \<le> 2"
  by (simp add: start_session_def animate_def Let_def setup_renderer_def setPixelRatio_def
      setSize_def new_WebGLRenderer_def)

text \<open>C8: when the asset fetch fails, the error is logged and the loading flag is cleared;
  the scene's background, its lighting environment and the stored environment texture keep
  their values, and so does every other field of the session. So a session whose fetch
  failed goes on with no background, no lighting environment and no stored texture,
  whatever frames, resizes and panel changes come before and after the failure.\<close>

theorem onError_effect:
  "console_errors (onError err s)
     = console_errors s @ [(''An error occurred loading the HDRI:'', err)]
   \<and> loading (onError err s) = False
   \<and> background (scene (onError err s)) = background (scene s)
   \<and> environment (scene (onError err s)) = environment (scene s)
   \<and> environmentTexture (onError err s) = environmentTexture s
   \<and> (onError err s)\<lparr>console_errors := console_errors s, loading := loading s\<rparr> = s
   \<and> background (scene (run es' (onError err (run es (start_session win now))))) = None
   \<and> environment (scene (run es' (onError err (run es (start_session win now))))) = None
   \<and> environmentTexture (run es' (onError err (run es (start_session win now)))) = None"
proof -
  have local: "(onError err s)\<lparr>console_errors := console_errors s, loading := loading s\<rparr> = s"
    by (simp add: onError_def)
  have scene_kept: "scene (onError err s') = scene s'" for s'
    by (simp add: onError_def)
  have slot_kept: "environmentTexture (onError err s') = environmentTexture s'" for s'
    by (simp add: onError_def)
  have no_background:
    "background (scene (run es' (onError err (run es (start_session win now))))) = None"
    by (simp add: run_scene_textures scene_kept start_session_scene_textures)
  have no_environment:
    "environment (scene (run es' (onError err (run es (start_session win now))))) = None"
    by (simp add: run_scene_textures scene_kept start_session_scene_textures)
  have no_texture:
    "environmentTexture (run es' (onError err (run es (start_session win now)))) = None"
    by (simp add: run_environmentTexture slot_kept start_session_environmentTexture)
  show ?thesis
    using local no_background no_environment no_texture
    by (simp add: onError_def)
qed

text \<open>C9: at initialisation the left material has metalness 1.0, roughness 0.05 and colour
  0xffffff, the right material has metalness 1.0, roughness 0.2 and colour 0xffaa00, the two
  spheres are at \<open>x = -1.2\<close> and \<open>x = 1.2\<close>, and the tone-mapping exposure is 1.0.\<close>

theorem initial_parameters:
  "material1 (start_session win now) = \<lparr>color = 0xffffff, metalness = 1.0, roughness = 0.05\<rparr>
   \<and> material2 (start_session win now) = \<lparr>color = 0xffaa00, metalness = 1.0, roughness = 0.2\<rparr>
   \<and> pos_x (position (sphere1 (start_session win now))) = - 1.2
   \<and> pos_x (position (sphere2 (start_session win now))) = 1.2
   \<and> toneMappingExposure (renderer (start_session win now)) = 1.0"
  by (simp add: start_session_def animate_def Let_def setup_renderer_def setPixelRatio_def
      setSize_def new_WebGLRenderer_def)

text \<open>C10: the rotation control's change handler changes only the y component of the
  scene's background rotation and of its environment rotation: the x and z components of
  both, the other fields of the scene and all fields of the session outside the scene are
  as before.\<close>

theorem rotation_onChange_frame:
  "rot_x (backgroundRotation (scene (rotation_onChange v s)))
     = rot_x (backgroundRotation (scene s))
   \<and> rot_z (backgroundRotation (scene (rotation_onChange v s)))
       = rot_z (backgroundRotation (scene s))
   \<and> rot_x (environmentRotation (scene (rotation_onChange v s)))
       = rot_x (environmentRotation (scene s))
   \<and> rot_z (environmentRotation (scene (rotation_onChange v s)))
       = rot_z (environmentRotation (scene s))
   \<and> (scene (rotation_onChange v s))
        \<lparr>backgroundRotation := backgroundRotation (scene s),
         environmentRotation := environmentRotation (scene s)\<rparr> = scene s
   \<and> (rotation_onChange v s)\<lparr>scene := scene s\<rparr> = s"
  by (simp add: rotation_onChange_def Let_def)

end
